theory Spec2Isabelle
  imports Complex_Main
begin

section \<open>Numbers and strings of the Python program\<close>

text \<open>
  The program computes with Python \<open>float\<close> and \<open>int\<close>. A \<open>float\<close> is modelled by a
  real number and an \<open>int\<close> by an integer: the arithmetic is exact, the binary rounding of
  each floating-point operation, the infinities and NaN are outside the model. Strings are
  byte lists; a code point beyond ASCII stands as its UTF-8 bytes.
\<close>

text \<open>
  A dictionary is modelled by the list of its items in insertion order, a lookup by
  \<open>map_of\<close>.
\<close>

text \<open>\<open>int(x)\<close> on a float: truncation toward zero.\<close>

definition py_int :: "real \<Rightarrow> int" where
  "py_int x = (if 0 \<le> x then \<lfloor>x\<rfloor> else \<lceil>x\<rceil>)"

text \<open>Rounding to the nearest integer, a tie going to the even neighbour.\<close>

definition round_half_even :: "real \<Rightarrow> int" where
  "round_half_even y =
     (let f = \<lfloor>y\<rfloor>; d = y - of_int f
      in if d < 1 / 2 then f
         else if 1 / 2 < d then f + 1
         else if even f then f else f + 1)"

text \<open>\<open>round(x, n)\<close>: the nearest multiple of \<open>10 ^ (-n)\<close>, ties to even.\<close>

definition py_round :: "real \<Rightarrow> nat \<Rightarrow> real" where
  "py_round x n = of_int (round_half_even (x * 10 ^ n)) / 10 ^ n"

text \<open>\<open>str(n)\<close> on an \<open>int\<close>: decimal digits, a minus sign for a negative number.\<close>

definition digit_char :: "nat \<Rightarrow> char" where
  "digit_char d = ''0123456789'' ! d"

fun str_nat :: "nat \<Rightarrow> string" where
  "str_nat n = (if n < 10 then [digit_char n] else str_nat (n div 10) @ [digit_char (n mod 10)])"

declare str_nat.simps [simp del]

definition str_int :: "int \<Rightarrow> string" where
  "str_int i = (if i < 0 then CHR ''-'' # str_nat (nat (- i)) else str_nat (nat i))"

section \<open>Gamification and scoring (gamification.py)\<close>

definition DAILY_CARBON_GOAL_KG :: real where
  "DAILY_CARBON_GOAL_KG = 20.0"

definition SCORE_MULTIPLIER :: real where
  "SCORE_MULTIPLIER = 5.0"

definition STREAK_BONUS_MILESTONES :: "(int \<times> int) list" where
  "STREAK_BONUS_MILESTONES = [(3, 50), (7, 150)]"

definition calculate_daily_score :: "real \<Rightarrow> int" where
  "calculate_daily_score total_carbon_kg =
     (let raw_score = 100 - (total_carbon_kg * (100 / DAILY_CARBON_GOAL_KG))
      in py_int (max 0 (min 100 raw_score)))"

text \<open>The two emoji of the status messages, as UTF-8 bytes (U+1F525 and U+2728).\<close>

definition fire_emoji :: string where
  "fire_emoji = [CHR 0xF0, CHR 0x9F, CHR 0x94, CHR 0xA5]"

definition sparkles_emoji :: string where
  "sparkles_emoji = [CHR 0xE2, CHR 0x9C, CHR 0xA8]"

definition calculate_weekly_streak :: "int \<Rightarrow> string \<times> int" where
  "calculate_weekly_streak active_days_count =
     (let bonus = (case map_of STREAK_BONUS_MILESTONES active_days_count of
                     Some b \<Rightarrow> b | None \<Rightarrow> 0);
          status =
            (if 7 \<le> active_days_count then
               fire_emoji @ '' Master Streak: '' @ str_int active_days_count @ '' days!''
             else if 3 \<le> active_days_count then
               sparkles_emoji @ '' On Fire: '' @ str_int active_days_count @ '' days!''
             else ''Keep it up: '' @ str_int active_days_count @ '' days'')
      in (status, bonus))"

text \<open>
  An entry of \<open>BADGE_DEFINITIONS\<close> is a dictionary with the keys \<open>id\<close>, \<open>name\<close>,
  \<open>description\<close> and any of the threshold keys \<open>transport_max\<close>, \<open>min_streak\<close>,
  \<open>energy_max\<close>; an absent key is \<open>None\<close>.
\<close>

record badge_definition =
  def_id :: string
  def_name :: string
  def_description :: string
  transport_max :: "real option"
  min_streak :: "int option"
  energy_max :: "real option"

record badge =
  badge_id :: string
  badge_name :: string
  badge_description :: string

definition LEVELS :: "(int \<times> string) list" where
  "LEVELS =
     [(0, ''Seedling''),
      (500, ''Sapling''),
      (1500, ''Oak''),
      (3000, ''Forest Guardian''),
      (5000, ''Planet Hero'')]"

definition BADGE_DEFINITIONS :: "badge_definition list" where
  "BADGE_DEFINITIONS =
     [\<lparr>def_id = ''green_traveler'', def_name = ''Green Traveler'',
        def_description = ''Transport footprint below 5kg.'',
        transport_max = Some 5.0, min_streak = None, energy_max = None\<rparr>,
      \<lparr>def_id = ''eco_warrior'', def_name = ''Eco Warrior'',
        def_description = ''Maintain a 7-day activity streak.'',
        transport_max = None, min_streak = Some 7, energy_max = None\<rparr>,
      \<lparr>def_id = ''low_utility'', def_name = ''Energy Saver'',
        def_description = ''Reduce daily energy use below 10kWh.'',
        transport_max = None, min_streak = None, energy_max = Some 10.0\<rparr>]"

text \<open>The body of the loop of \<open>get_badges\<close>: the three tests clear \<open>is_earned\<close>.\<close>

definition is_earned :: "badge_definition \<Rightarrow> int \<Rightarrow> real \<Rightarrow> real \<Rightarrow> bool" where
  "is_earned b streak_days transport_kg energy_kwh =
     (let e = True;
          e = (if (case transport_max b of Some m \<Rightarrow> m < transport_kg | None \<Rightarrow> False)
               then False else e);
          e = (if (case min_streak b of Some m \<Rightarrow> streak_days < m | None \<Rightarrow> False)
               then False else e);
          e = (if (case energy_max b of Some m \<Rightarrow> m < energy_kwh | None \<Rightarrow> False)
               then False else e)
      in e)"

definition earned_entry :: "badge_definition \<Rightarrow> badge" where
  "earned_entry b =
     \<lparr>badge_id = def_id b, badge_name = def_name b, badge_description = def_description b\<rparr>"

text \<open>The loop over the catalog, \<open>earned\<close> being the list built so far.\<close>

fun get_badges_loop ::
  "badge_definition list \<Rightarrow> int \<Rightarrow> real \<Rightarrow> real \<Rightarrow> badge list \<Rightarrow> badge list" where
  "get_badges_loop [] streak_days transport_kg energy_kwh earned = earned"
| "get_badges_loop (b # bs) streak_days transport_kg energy_kwh earned =
     get_badges_loop bs streak_days transport_kg energy_kwh
       (if is_earned b streak_days transport_kg energy_kwh
        then earned @ [earned_entry b] else earned)"

definition get_badges :: "real \<Rightarrow> int \<Rightarrow> real \<Rightarrow> real \<Rightarrow> badge list" where
  "get_badges total_carbon_kg streak_days transport_kg energy_kwh =
     get_badges_loop BADGE_DEFINITIONS streak_days transport_kg energy_kwh []"

record progress_level =
  level_name :: string
  level_number :: int
  total_points :: int

text \<open>
  The loop of \<open>get_progress_level\<close> over \<open>enumerate(LEVELS)\<close>, the state being
  \<open>(current_level_name, level_num)\<close>; the \<open>else\<close> branch is the \<open>break\<close>.
\<close>

fun level_loop :: "(nat \<times> int \<times> string) list \<Rightarrow> int \<Rightarrow> string \<times> int \<Rightarrow> string \<times> int" where
  "level_loop [] points st = st"
| "level_loop ((i, threshold, name) # rest) points st =
     (if threshold \<le> points then level_loop rest points (name, int i + 1) else st)"

definition get_progress_level :: "int \<Rightarrow> progress_level" where
  "get_progress_level points =
     (let (current_level_name, level_num) =
            level_loop (enumerate 0 LEVELS) points (snd (LEVELS ! 0), 1)
      in \<lparr>level_name = current_level_name, level_number = level_num, total_points = points\<rparr>)"

subsection \<open>The specification's reading of badges and levels\<close>

text \<open>
  A badge qualifies when every threshold it declares is satisfied: the transport figure
  is at most \<open>transport_max\<close>, the streak at least \<open>min_streak\<close>, the energy figure at most
  \<open>energy_max\<close>.
\<close>

definition badge_qualifies :: "int \<Rightarrow> real \<Rightarrow> real \<Rightarrow> badge_definition \<Rightarrow> bool" where
  "badge_qualifies streak_days transport_kg energy_kwh b =
     ((case transport_max b of Some m \<Rightarrow> transport_kg \<le> m | None \<Rightarrow> True) \<and>
      (case min_streak b of Some m \<Rightarrow> m \<le> streak_days | None \<Rightarrow> True) \<and>
      (case energy_max b of Some m \<Rightarrow> energy_kwh \<le> m | None \<Rightarrow> True))"

text \<open>
  The level of the specification: among the entries of the table whose threshold does not
  exceed the points, the one with the highest threshold, with its position counted from 1;
  the first entry at position 1 when there is none.
\<close>

fun highest_threshold :: "(nat \<times> int \<times> string) \<Rightarrow> (nat \<times> int \<times> string) list \<Rightarrow> (nat \<times> int \<times> string)" where
  "highest_threshold best [] = best"
| "highest_threshold best (e # es) =
     highest_threshold (if fst (snd best) < fst (snd e) then e else best) es"

definition spec_progress_level :: "(int \<times> string) list \<Rightarrow> int \<Rightarrow> progress_level" where
  "spec_progress_level levels points =
     (case filter (\<lambda>(i, threshold, name). threshold \<le> points) (enumerate 1 levels) of
        [] \<Rightarrow> \<lparr>level_name = snd (hd levels), level_number = 1, total_points = points\<rparr>
      | e # es \<Rightarrow>
          (let (i, threshold, name) = highest_threshold e es
           in \<lparr>level_name = name, level_number = int i, total_points = points\<rparr>))"

section \<open>Carbon footprint calculation engine (carbon\_engine.py)\<close>

text \<open>
  \<open>str.lower()\<close> and \<open>str.capitalize()\<close> on the ASCII letters; every other byte is
  left as it is.
\<close>

definition lower_char :: "char \<Rightarrow> char" where
  "lower_char c =
     (case map_of (zip ''ABCDEFGHIJKLMNOPQRSTUVWXYZ'' ''abcdefghijklmnopqrstuvwxyz'') c of
        Some d \<Rightarrow> d | None \<Rightarrow> c)"

definition upper_char :: "char \<Rightarrow> char" where
  "upper_char c =
     (case map_of (zip ''abcdefghijklmnopqrstuvwxyz'' ''ABCDEFGHIJKLMNOPQRSTUVWXYZ'') c of
        Some d \<Rightarrow> d | None \<Rightarrow> c)"

definition str_lower :: "string \<Rightarrow> string" where
  "str_lower s = map lower_char s"

definition str_capitalize :: "string \<Rightarrow> string" where
  "str_capitalize s = (case s of [] \<Rightarrow> [] | c # cs \<Rightarrow> upper_char c # map lower_char cs)"

text \<open>A factor table is a dictionary from activity type to kg CO2e per unit.\<close>

type_synonym factors = "(string \<times> real) list"

definition DEFAULT_EMISSION_FACTORS :: "(string \<times> factors) list" where
  "DEFAULT_EMISSION_FACTORS =
     [(''transport'',
        [(''car'', 0.17), (''bus'', 0.08), (''train'', 0.03), (''flight'', 0.24)]),
      (''food'',
        [(''beef'', 27.0), (''chicken'', 6.9), (''dairy'', 1.9),
         (''vegetables'', 0.4), (''rice'', 2.7)]),
      (''energy'',
        [(''electricity'', 0.45), (''gas'', 0.18)])]"

text \<open>
  \<open>factors.get(key, 0.0)\<close>, and the subscript \<open>DEFAULT_EMISSION_FACTORS[category]\<close>,
  which the source applies to the three categories of the table only.
\<close>

definition get_factor :: "factors \<Rightarrow> string \<Rightarrow> real" where
  "get_factor fs key = (case map_of fs key of Some v \<Rightarrow> v | None \<Rightarrow> 0.0)"

definition default_factors :: "string \<Rightarrow> factors" where
  "default_factors category = the (map_of DEFAULT_EMISSION_FACTORS category)"

definition calculate_transport_emissions :: "string \<Rightarrow> real \<Rightarrow> factors option \<Rightarrow> real" where
  "calculate_transport_emissions mode distance_km factors =
     (let fs = (case factors of None \<Rightarrow> default_factors ''transport'' | Some f \<Rightarrow> f);
          factor = get_factor fs (str_lower mode)
      in distance_km * factor)"

definition calculate_food_emissions :: "string \<Rightarrow> real \<Rightarrow> factors option \<Rightarrow> real" where
  "calculate_food_emissions food_type quantity_kg factors =
     (let fs = (case factors of None \<Rightarrow> default_factors ''food'' | Some f \<Rightarrow> f);
          factor = get_factor fs (str_lower food_type)
      in quantity_kg * factor)"

definition calculate_energy_emissions :: "string \<Rightarrow> real \<Rightarrow> factors option \<Rightarrow> real" where
  "calculate_energy_emissions energy_type kwh factors =
     (let fs = (case factors of None \<Rightarrow> default_factors ''energy'' | Some f \<Rightarrow> f);
          factor = get_factor fs (str_lower energy_type)
      in kwh * factor)"




record breakdown =
  transport :: real
  food :: real
  energy :: real

record footprint =
  total_kg_co2e :: real
  breakdown :: breakdown



section \<open>Recommendation prompt (recommendation\_engine.py)\<close>

text \<open>
  The format \<open>{x:.2f}\<close>: the sign, the integer part and two decimals, rounded as
  \<open>round\<close> does.
\<close>

definition fmt_2f :: "real \<Rightarrow> string" where
  "fmt_2f x =
     (let q = nat (round_half_even (\<bar>x\<bar> * 100))
      in (if x < 0 then ''-'' else []) @ str_nat (q div 100) @ ''.'' @
         [digit_char (q mod 100 div 10), digit_char (q mod 10)])"

text \<open>\<open>str.strip()\<close>: the white space of both ends goes.\<close>

definition is_space :: "char \<Rightarrow> bool" where
  "is_space c = (c \<in> set [CHR '' '', CHR 0x09, CHR 0x0A, CHR 0x0B, CHR 0x0C, CHR 0x0D,
                            CHR 0x1C, CHR 0x1D, CHR 0x1E, CHR 0x1F])"

definition str_strip :: "string \<Rightarrow> string" where
  "str_strip s = rev (dropWhile is_space (rev (dropWhile is_space s)))"

text \<open>
  \<open>max(categories, key=categories.get)\<close>: the items are visited in the order of the
  dictionary and a later one replaces the best so far only when its value is strictly
  greater. The value \<open>categories.get(k)\<close> of a key travels with it.
\<close>

fun max_by_value :: "string \<times> real \<Rightarrow> (string \<times> real) list \<Rightarrow> string \<times> real" where
  "max_by_value best [] = best"
| "max_by_value best (kv # rest) =
     max_by_value (if snd best < snd kv then kv else best) rest"

definition categories_of :: "(string \<times> real) list \<Rightarrow> (string \<times> real) list" where
  "categories_of carbon_breakdown = filter (\<lambda>(k, v). k \<noteq> ''total'') carbon_breakdown"

definition highest_category :: "(string \<times> real) list \<Rightarrow> string" where
  "highest_category carbon_breakdown =
     (case categories_of carbon_breakdown of
        [] \<Rightarrow> ''N/A''
      | kv # rest \<Rightarrow> fst (max_by_value kv rest))"

definition highest_value :: "(string \<times> real) list \<Rightarrow> real" where
  "highest_value carbon_breakdown =
     (case map_of (categories_of carbon_breakdown) (highest_category carbon_breakdown) of
        Some v \<Rightarrow> v | None \<Rightarrow> 0)"

definition get_or_zero :: "(string \<times> real) list \<Rightarrow> string \<Rightarrow> real" where
  "get_or_zero d key = (case map_of d key of Some v \<Rightarrow> v | None \<Rightarrow> 0)"

definition newline :: char where
  "newline = CHR 0x0A"

definition double_quote :: char where
  "double_quote = CHR 0x22"

text \<open>The en dash (U+2013) of the task paragraph, as UTF-8 bytes.\<close>

definition en_dash :: string where
  "en_dash = [CHR 0xE2, CHR 0x80, CHR 0x93]"

definition analysis_line :: "(string \<times> real) list \<Rightarrow> string" where
  "analysis_line carbon_breakdown =
     ''- The highest contributor to the user's footprint is **'' @
     str_capitalize (highest_category carbon_breakdown) @ ''** ('' @
     fmt_2f (highest_value carbon_breakdown) @ '' kg CO2e).''"

definition prompt_lines :: "(string \<times> real) list \<Rightarrow> string \<Rightarrow> string list" where
  "prompt_lines carbon_breakdown activity_summary =
     [[],
      ''Act as a Sustainability Expert and Carbon Footprint Consultant.'',
      ''Your goal is to analyze a user's carbon footprint data and provide actionable, realistic, and prioritized recommendations to reduce their environmental impact.'',
      [],
      ''### User Carbon Footprint Data (kg CO2e):'',
      ''- **Total Footprint**: '' @ fmt_2f (get_or_zero carbon_breakdown ''total''),
      ''- **Transport**: '' @ fmt_2f (get_or_zero carbon_breakdown ''transport''),
      ''- **Food**: '' @ fmt_2f (get_or_zero carbon_breakdown ''food''),
      ''- **Energy**: '' @ fmt_2f (get_or_zero carbon_breakdown ''energy''),
      [],
      ''### User's Recent Activity Summary:'',
      [double_quote] @ activity_summary @ [double_quote],
      [],
      ''### Analysis:'',
      analysis_line carbon_breakdown,
      [],
      ''### Task:'',
      ''Please provide 5'' @ en_dash @ ''7 specific and realistic recommendations to reduce this carbon footprint. '',
      ''For each recommendation, include:'',
      ''1. **Action**: A clear, actionable step.'',
      ''2. **Priority**: High, Medium, or Low (based on potential impact and ease of implementation).'',
      ''3. **Rationale**: A brief explanation of why this helps.'',
      [],
      ''### Output Style:'',
      ''- Use a professional yet encouraging tone.'',
      ''- Use clear bullet points.'',
      ''- Ensure recommendations are tailored to the provided data and habits.'',
      ''- Do not use generic advice; keep it specific to the identified problem areas.'',
      [],
      ''Recommendations:'']"

definition build_recommendation_prompt :: "(string \<times> real) list \<Rightarrow> string \<Rightarrow> string" where
  "build_recommendation_prompt carbon_breakdown activity_summary =
     str_strip (concat (map (\<lambda>l. l @ [newline]) (prompt_lines carbon_breakdown activity_summary)))"

section \<open>Integrated demo flow (demo\_api.py)\<close>

record DemoRunRequest =
  transport_mode :: string
  distance :: real
  food_type :: string
  food_quantity :: real
  energy_kwh :: real

record demo_response =
  transport_emission :: real
  food_emission :: real
  energy_emission :: real
  total_emission :: real
  daily_score :: int
  badges :: "badge list"
  recommendation_prompt :: string

text \<open>The dictionary \<open>breakdown\<close> that \<open>run_integrated_demo\<close> builds for the prompt.\<close>

definition demo_breakdown :: "DemoRunRequest \<Rightarrow> (string \<times> real) list" where
  "demo_breakdown req =
     (let te = calculate_transport_emissions (transport_mode req) (distance req) None;
          fe = calculate_food_emissions (food_type req) (food_quantity req) None;
          ee = calculate_energy_emissions ''electricity'' (energy_kwh req) None;
          total = te + fe + ee
      in [(''transport'', py_round te 2),
          (''food'', py_round fe 2),
          (''energy'', py_round ee 2),
          (''total'', py_round total 2)])"

text \<open>
  The f-string of \<open>habit_summary\<close> prints three floats with \<open>str\<close>, the shortest decimal
  that reads back as the same binary float; it is the parameter \<open>str_float\<close> here.
\<close>

definition habit_summary :: "(real \<Rightarrow> string) \<Rightarrow> DemoRunRequest \<Rightarrow> string" where
  "habit_summary str_float req =
     ''I traveled '' @ str_float (distance req) @ ''km by '' @ transport_mode req @
     '', consumed '' @ str_float (food_quantity req) @ ''kg of '' @ food_type req @
     '', and used '' @ str_float (energy_kwh req) @ ''kWh of electricity.''"

text \<open>
  No step of the \<open>try\<close> block raises on a request of the declared field types, so the
  handler of \<open>except\<close> is not a branch of the model.
\<close>

definition run_integrated_demo :: "(real \<Rightarrow> string) \<Rightarrow> DemoRunRequest \<Rightarrow> demo_response" where
  "run_integrated_demo str_float req =
     (let te = calculate_transport_emissions (transport_mode req) (distance req) None;
          fe = calculate_food_emissions (food_type req) (food_quantity req) None;
          ee = calculate_energy_emissions ''electricity'' (energy_kwh req) None;
          total = te + fe + ee;
          score = calculate_daily_score total;
          earned = get_badges total 1 te (energy_kwh req);
          prompt = build_recommendation_prompt (demo_breakdown req) (habit_summary str_float req)
      in \<lparr>transport_emission = py_round te 4,
          food_emission = py_round fe 4,
          energy_emission = py_round ee 4,
          total_emission = py_round total 4,
          daily_score = score,
          badges = earned,
          recommendation_prompt = prompt\<rparr>)"

section \<open>Notions used in the statements\<close>

text \<open>
  The factor table a single-entry calculator works with: the one it is given, the
  built-in table of the category when it is given \<open>None\<close>.
\<close>

definition applicable_factors :: "string \<Rightarrow> factors option \<Rightarrow> factors" where
  "applicable_factors category factors =
     (case factors of None \<Rightarrow> default_factors category | Some f \<Rightarrow> f)"

text \<open>Lines joined by newlines, none after the last.\<close>

definition join_lines :: "string list \<Rightarrow> string" where
  "join_lines ls = butlast (concat (map (\<lambda>l. l @ [newline]) ls))"

section \<open>The emission calculators\<close>

lemma default_transport:
  "default_factors ''transport'' =
     [(''car'', 0.17), (''bus'', 0.08), (''train'', 0.03), (''flight'', 0.24)]"
  by (simp add: default_factors_def DEFAULT_EMISSION_FACTORS_def)

lemma default_food:
  "default_factors ''food'' =
     [(''beef'', 27.0), (''chicken'', 6.9), (''dairy'', 1.9), (''vegetables'', 0.4), (''rice'', 2.7)]"
  by (simp add: default_factors_def DEFAULT_EMISSION_FACTORS_def)

lemma default_energy:
  "default_factors ''energy'' = [(''electricity'', 0.45), (''gas'', 0.18)]"
  by (simp add: default_factors_def DEFAULT_EMISSION_FACTORS_def)

lemma get_factor_absent: "key \<notin> fst ` set fs \<Longrightarrow> get_factor fs key = 0"
proof -
  assume "key \<notin> fst ` set fs"
  then have "map_of fs key = None"
    by (simp add: map_of_eq_None_iff)
  then show ?thesis
    by (simp add: get_factor_def)
qed

lemma lower_examples:
  "str_lower ''Car'' = ''car''" "str_lower ''BUS'' = ''bus''" "str_lower ''train'' = ''train''"
  "str_lower ''Flight'' = ''flight''" "str_lower ''Beef'' = ''beef''"
  "str_lower ''CHICKEN'' = ''chicken''" "str_lower ''dairy'' = ''dairy''"
  "str_lower ''Vegetables'' = ''vegetables''" "str_lower ''rICE'' = ''rice''"
  "str_lower ''Electricity'' = ''electricity''" "str_lower ''GAS'' = ''gas''"
  "str_lower ''Hovercraft'' = ''hovercraft''"
  by (simp_all add: str_lower_def lower_char_def)

text \<open>
  Claim C1. With no custom factor table, an activity type whose lower-case form is a key
  of the built-in table and a non-negative quantity give the quantity times the documented
  factor: car 0.17, bus 0.08, train 0.03, flight 0.24 per km; beef 27.0, chicken 6.9,
  dairy 1.9, vegetables 0.4, rice 2.7 per kg; electricity 0.45, gas 0.18 per kWh. These
  are all the keys of the built-in tables.
\<close>

theorem default_factor_emissions:
  assumes "0 \<le> q"
  shows "(str_lower ty = ''car'' \<longrightarrow> calculate_transport_emissions ty q None = q * 0.17) \<and>
         (str_lower ty = ''bus'' \<longrightarrow> calculate_transport_emissions ty q None = q * 0.08) \<and>
         (str_lower ty = ''train'' \<longrightarrow> calculate_transport_emissions ty q None = q * 0.03) \<and>
         (str_lower ty = ''flight'' \<longrightarrow> calculate_transport_emissions ty q None = q * 0.24) \<and>
         (str_lower ty = ''beef'' \<longrightarrow> calculate_food_emissions ty q None = q * 27.0) \<and>
         (str_lower ty = ''chicken'' \<longrightarrow> calculate_food_emissions ty q None = q * 6.9) \<and>
         (str_lower ty = ''dairy'' \<longrightarrow> calculate_food_emissions ty q None = q * 1.9) \<and>
         (str_lower ty = ''vegetables'' \<longrightarrow> calculate_food_emissions ty q None = q * 0.4) \<and>
         (str_lower ty = ''rice'' \<longrightarrow> calculate_food_emissions ty q None = q * 2.7) \<and>
         (str_lower ty = ''electricity'' \<longrightarrow> calculate_energy_emissions ty q None = q * 0.45) \<and>
         (str_lower ty = ''gas'' \<longrightarrow> calculate_energy_emissions ty q None = q * 0.18) \<and>
         map fst (default_factors ''transport'') = [''car'', ''bus'', ''train'', ''flight''] \<and>
         map fst (default_factors ''food'') =
           [''beef'', ''chicken'', ''dairy'', ''vegetables'', ''rice''] \<and>
         map fst (default_factors ''energy'') = [''electricity'', ''gas'']"
  by (simp add: calculate_transport_emissions_def calculate_food_emissions_def
      calculate_energy_emissions_def default_transport default_food default_energy get_factor_def)

theorem default_factor_emissions_witness:
  "(0::real) \<le> 10 \<and>
   str_lower ''Car'' = ''car'' \<and> calculate_transport_emissions ''Car'' 10 None = 10 * 0.17 \<and>
   str_lower ''BUS'' = ''bus'' \<and> calculate_transport_emissions ''BUS'' 10 None = 10 * 0.08 \<and>
   str_lower ''train'' = ''train'' \<and> calculate_transport_emissions ''train'' 10 None = 10 * 0.03 \<and>
   str_lower ''Flight'' = ''flight'' \<and> calculate_transport_emissions ''Flight'' 10 None = 10 * 0.24 \<and>
   str_lower ''Beef'' = ''beef'' \<and> calculate_food_emissions ''Beef'' 10 None = 10 * 27.0 \<and>
   str_lower ''CHICKEN'' = ''chicken'' \<and> calculate_food_emissions ''CHICKEN'' 10 None = 10 * 6.9 \<and>
   str_lower ''dairy'' = ''dairy'' \<and> calculate_food_emissions ''dairy'' 10 None = 10 * 1.9 \<and>
   str_lower ''Vegetables'' = ''vegetables'' \<and>
   calculate_food_emissions ''Vegetables'' 10 None = 10 * 0.4 \<and>
   str_lower ''rICE'' = ''rice'' \<and> calculate_food_emissions ''rICE'' 10 None = 10 * 2.7 \<and>
   str_lower ''Electricity'' = ''electricity'' \<and>
   calculate_energy_emissions ''Electricity'' 10 None = 10 * 0.45 \<and>
   str_lower ''GAS'' = ''gas'' \<and> calculate_energy_emissions ''GAS'' 10 None = 10 * 0.18"
proof -
  have q: "(0::real) \<le> 10" by simp
  note t = default_factor_emissions [OF q]
  have "calculate_transport_emissions ''Car'' 10 None = 10 * 0.17"
    using t [of "''Car''"] lower_examples(1) by blast
  moreover have "calculate_transport_emissions ''BUS'' 10 None = 10 * 0.08"
    using t [of "''BUS''"] lower_examples(2) by blast
  moreover have "calculate_transport_emissions ''train'' 10 None = 10 * 0.03"
    using t [of "''train''"] lower_examples(3) by blast
  moreover have "calculate_transport_emissions ''Flight'' 10 None = 10 * 0.24"
    using t [of "''Flight''"] lower_examples(4) by blast
  moreover have "calculate_food_emissions ''Beef'' 10 None = 10 * 27.0"
    using t [of "''Beef''"] lower_examples(5) by blast
  moreover have "calculate_food_emissions ''CHICKEN'' 10 None = 10 * 6.9"
    using t [of "''CHICKEN''"] lower_examples(6) by blast
  moreover have "calculate_food_emissions ''dairy'' 10 None = 10 * 1.9"
    using t [of "''dairy''"] lower_examples(7) by blast
  moreover have "calculate_food_emissions ''Vegetables'' 10 None = 10 * 0.4"
    using t [of "''Vegetables''"] lower_examples(8) by blast
  moreover have "calculate_food_emissions ''rICE'' 10 None = 10 * 2.7"
    using t [of "''rICE''"] lower_examples(9) by blast
  moreover have "calculate_energy_emissions ''Electricity'' 10 None = 10 * 0.45"
    using t [of "''Electricity''"] lower_examples(10) by blast
  moreover have "calculate_energy_emissions ''GAS'' 10 None = 10 * 0.18"
    using t [of "''GAS''"] lower_examples(11) by blast
  ultimately show ?thesis
    using q lower_examples by blast
qed

text \<open>
  Claim C2. An activity type whose lower-case form is not a key of the applicable factor
  table (the custom one, or the built-in one of the category) gives 0 whatever the
  quantity. The calculators have no failing step: they return a number for every type,
  known or not, and every quantity, negative or not.
\<close>

theorem unknown_type_zero:
  "(str_lower ty \<notin> fst ` set (applicable_factors ''transport'' fo) \<longrightarrow>
      calculate_transport_emissions ty q fo = 0) \<and>
   (str_lower ty \<notin> fst ` set (applicable_factors ''food'' fo) \<longrightarrow>
      calculate_food_emissions ty q fo = 0) \<and>
   (str_lower ty \<notin> fst ` set (applicable_factors ''energy'' fo) \<longrightarrow>
      calculate_energy_emissions ty q fo = 0)"
  by (auto simp: calculate_transport_emissions_def calculate_food_emissions_def
      calculate_energy_emissions_def applicable_factors_def get_factor_absent split: option.splits)

theorem unknown_type_zero_witness:
  "str_lower ''Hovercraft'' \<notin> fst ` set (applicable_factors ''transport'' None) \<and>
   calculate_transport_emissions ''Hovercraft'' (- 5) None = 0 \<and>
   str_lower ''Hovercraft'' \<notin> fst ` set (applicable_factors ''food'' None) \<and>
   calculate_food_emissions ''Hovercraft'' (- 5) None = 0 \<and>
   str_lower ''Hovercraft'' \<notin> fst ` set (applicable_factors ''energy'' None) \<and>
   calculate_energy_emissions ''Hovercraft'' (- 5) None = 0 \<and>
   str_lower ''Car'' \<notin> fst ` set (applicable_factors ''transport'' (Some [(''bike'', 0.01)])) \<and>
   calculate_transport_emissions ''Car'' 12 (Some [(''bike'', 0.01)]) = 0"
proof -
  have a: "str_lower ''Hovercraft'' \<notin> fst ` set (applicable_factors ''transport'' None)"
    by (simp add: applicable_factors_def default_transport lower_examples)
  have b: "str_lower ''Hovercraft'' \<notin> fst ` set (applicable_factors ''food'' None)"
    by (simp add: applicable_factors_def default_food lower_examples)
  have c: "str_lower ''Hovercraft'' \<notin> fst ` set (applicable_factors ''energy'' None)"
    by (simp add: applicable_factors_def default_energy lower_examples)
  have d: "str_lower ''Car'' \<notin> fst ` set (applicable_factors ''transport'' (Some [(''bike'', 0.01)]))"
    by (simp add: applicable_factors_def lower_examples)
  show ?thesis
    using a b c d unknown_type_zero [of "''Hovercraft''" None "- 5"]
      unknown_type_zero [of "''Car''" "Some [(''bike'', 0.01)]" 12]
    by blast
qed

section \<open>Scores and streaks\<close>

text \<open>
  Claim C3. The daily score is \<open>100 - total * (100 / 20.0)\<close>, clamped to the interval from
  0 to 100 and then truncated toward zero; it is an integer between 0 and 100 for every
  input, and it is 100, 50, 0 and 0 at 0, 10, 20 and 30 kg. Truncation, not rounding: 0.1 kg
  gives 99 from the raw score 99.5.
\<close>

theorem daily_score_clamped_truncated:
  "calculate_daily_score x = py_int (max 0 (min 100 (100 - x * (100 / 20.0)))) \<and>
   py_int (995 / 10) = 99 \<and> py_int (- (995 / 10)) = - 99 \<and>
   0 \<le> calculate_daily_score x \<and> calculate_daily_score x \<le> 100 \<and>
   calculate_daily_score 0 = 100 \<and> calculate_daily_score 10 = 50 \<and>
   calculate_daily_score 20 = 0 \<and> calculate_daily_score 30 = 0 \<and>
   calculate_daily_score (1 / 10) = 99"
proof -
  have range: "0 \<le> calculate_daily_score x \<and> calculate_daily_score x \<le> 100"
    unfolding calculate_daily_score_def py_int_def Let_def
    by (auto simp: floor_le_iff le_floor_iff)
  have form: "calculate_daily_score x = py_int (max 0 (min 100 (100 - x * (100 / 20.0))))"
    by (simp add: calculate_daily_score_def DAILY_CARBON_GOAL_KG_def)
  have trunc: "py_int (995 / 10) = 99 \<and> py_int (- (995 / 10)) = - 99"
    by (simp add: py_int_def)
  have vals: "calculate_daily_score 0 = 100 \<and> calculate_daily_score 10 = 50 \<and>
      calculate_daily_score 20 = 0 \<and> calculate_daily_score 30 = 0 \<and>
      calculate_daily_score (1 / 10) = 99"
    by (simp add: calculate_daily_score_def DAILY_CARBON_GOAL_KG_def py_int_def)
  from range form trunc vals show ?thesis
    by blast
qed

text \<open>
  Claim C4. The streak bonus is an exact-match lookup: 50 at 3 active days, 150 at 7, and 0
  at every other count, 8 and 10 included. The status is the master-streak message with
  the day count from 7 days on, the on-fire message from 3 to 6 days, the keep-it-up
  message below.
\<close>

theorem weekly_streak_bonus_and_status:
  "snd (calculate_weekly_streak n) = (if n = 3 then 50 else if n = 7 then 150 else 0) \<and>
   fst (calculate_weekly_streak n) =
     (if 7 \<le> n then fire_emoji @ '' Master Streak: '' @ str_int n @ '' days!''
      else if 3 \<le> n then sparkles_emoji @ '' On Fire: '' @ str_int n @ '' days!''
      else ''Keep it up: '' @ str_int n @ '' days'') \<and>
   calculate_weekly_streak 3 = (sparkles_emoji @ '' On Fire: 3 days!'', 50) \<and>
   calculate_weekly_streak 7 = (fire_emoji @ '' Master Streak: 7 days!'', 150) \<and>
   calculate_weekly_streak 8 = (fire_emoji @ '' Master Streak: 8 days!'', 0) \<and>
   calculate_weekly_streak 10 = (fire_emoji @ '' Master Streak: 10 days!'', 0) \<and>
   calculate_weekly_streak 2 = (''Keep it up: 2 days'', 0)"
proof -
  have bonus: "snd (calculate_weekly_streak n) = (if n = 3 then 50 else if n = 7 then 150 else 0)"
    by (simp add: calculate_weekly_streak_def STREAK_BONUS_MILESTONES_def Let_def)
  have status: "fst (calculate_weekly_streak n) =
     (if 7 \<le> n then fire_emoji @ '' Master Streak: '' @ str_int n @ '' days!''
      else if 3 \<le> n then sparkles_emoji @ '' On Fire: '' @ str_int n @ '' days!''
      else ''Keep it up: '' @ str_int n @ '' days'')"
    by (simp add: calculate_weekly_streak_def Let_def)
  have ex: "calculate_weekly_streak 3 = (sparkles_emoji @ '' On Fire: 3 days!'', 50) \<and>
     calculate_weekly_streak 7 = (fire_emoji @ '' Master Streak: 7 days!'', 150) \<and>
     calculate_weekly_streak 8 = (fire_emoji @ '' Master Streak: 8 days!'', 0) \<and>
     calculate_weekly_streak 10 = (fire_emoji @ '' Master Streak: 10 days!'', 0) \<and>
     calculate_weekly_streak 2 = (''Keep it up: 2 days'', 0)"
    by (simp add: calculate_weekly_streak_def STREAK_BONUS_MILESTONES_def str_int_def
        str_nat.simps digit_char_def)
  from bonus status ex show ?thesis
    by blast
qed

section \<open>Badges and levels\<close>

lemma get_badges_loop_filter:
  "get_badges_loop bs sd tk ek earned =
     earned @ map earned_entry (filter (badge_qualifies sd tk ek) bs)"
proof (induction bs arbitrary: earned)
  case Nil
  then show ?case by simp
next
  case (Cons b bs)
  have "is_earned b sd tk ek = badge_qualifies sd tk ek b"
    by (auto simp: is_earned_def badge_qualifies_def Let_def split: option.splits)
  with Cons show ?case by simp
qed

text \<open>
  Claim C5. The badges returned are exactly the entries of the catalog whose every declared
  threshold is satisfied (\<open>badge_qualifies\<close>), in the order of the catalog; the result does
  not depend on the total-carbon argument; and the call with total 10, streak 7, transport 2
  and energy 5 returns Green Traveler, Eco Warrior and Energy Saver.
\<close>

theorem badges_are_qualifying_catalog_entries:
  "get_badges tc sd tk ek = map earned_entry (filter (badge_qualifies sd tk ek) BADGE_DEFINITIONS) \<and>
   get_badges tc sd tk ek = get_badges tc' sd tk ek \<and>
   get_badges 10 7 2 5 =
     [\<lparr>badge_id = ''green_traveler'', badge_name = ''Green Traveler'',
        badge_description = ''Transport footprint below 5kg.''\<rparr>,
      \<lparr>badge_id = ''eco_warrior'', badge_name = ''Eco Warrior'',
        badge_description = ''Maintain a 7-day activity streak.''\<rparr>,
      \<lparr>badge_id = ''low_utility'', badge_name = ''Energy Saver'',
        badge_description = ''Reduce daily energy use below 10kWh.''\<rparr>]"
proof -
  have a: "get_badges tc sd tk ek =
      map earned_entry (filter (badge_qualifies sd tk ek) BADGE_DEFINITIONS)"
    by (simp add: get_badges_def get_badges_loop_filter)
  have b: "get_badges tc sd tk ek = get_badges tc' sd tk ek"
    by (simp add: get_badges_def)
  have c: "get_badges 10 7 2 5 =
     [\<lparr>badge_id = ''green_traveler'', badge_name = ''Green Traveler'',
        badge_description = ''Transport footprint below 5kg.''\<rparr>,
      \<lparr>badge_id = ''eco_warrior'', badge_name = ''Eco Warrior'',
        badge_description = ''Maintain a 7-day activity streak.''\<rparr>,
      \<lparr>badge_id = ''low_utility'', badge_name = ''Energy Saver'',
        badge_description = ''Reduce daily energy use below 10kWh.''\<rparr>]"
    by (simp add: get_badges_def BADGE_DEFINITIONS_def is_earned_def earned_entry_def)
  from a b c show ?thesis by blast
qed

lemma level_buckets:
  "get_progress_level p =
     \<lparr>level_name = (if p < 500 then ''Seedling'' else if p < 1500 then ''Sapling''
                    else if p < 3000 then ''Oak'' else if p < 5000 then ''Forest Guardian''
                    else ''Planet Hero''),
      level_number = (if p < 500 then 1 else if p < 1500 then 2 else if p < 3000 then 3
                      else if p < 5000 then 4 else 5),
      total_points = p\<rparr>"
  by (simp add: get_progress_level_def LEVELS_def)

lemma spec_level_buckets:
  "spec_progress_level LEVELS p =
     \<lparr>level_name = (if p < 500 then ''Seedling'' else if p < 1500 then ''Sapling''
                    else if p < 3000 then ''Oak'' else if p < 5000 then ''Forest Guardian''
                    else ''Planet Hero''),
      level_number = (if p < 500 then 1 else if p < 1500 then 2 else if p < 3000 then 3
                      else if p < 5000 then 4 else 5),
      total_points = p\<rparr>"
  by (simp add: spec_progress_level_def LEVELS_def)

text \<open>
  Claim C6. The level returned is the one of the highest threshold of the ascending table
  that does not exceed the points, with its position counted from 1, and the first entry
  with number 1 below the first threshold (\<open>spec_progress_level\<close>); 2000 points give Oak,
  level 3.
\<close>

theorem progress_level_is_highest_threshold:
  "get_progress_level p = spec_progress_level LEVELS p \<and>
   sorted (map fst LEVELS) \<and>
   get_progress_level 2000 = \<lparr>level_name = ''Oak'', level_number = 3, total_points = 2000\<rparr> \<and>
   get_progress_level (- 1) = \<lparr>level_name = ''Seedling'', level_number = 1, total_points = - 1\<rparr> \<and>
   get_progress_level 5000 = \<lparr>level_name = ''Planet Hero'', level_number = 5, total_points = 5000\<rparr>"
proof -
  have "get_progress_level p = spec_progress_level LEVELS p"
    by (simp only: level_buckets spec_level_buckets)
  moreover have "sorted (map fst LEVELS)"
    by (simp add: LEVELS_def)
  moreover have "get_progress_level 2000 = \<lparr>level_name = ''Oak'', level_number = 3, total_points = 2000\<rparr>"
    "get_progress_level (- 1) = \<lparr>level_name = ''Seedling'', level_number = 1, total_points = - 1\<rparr>"
    "get_progress_level 5000 = \<lparr>level_name = ''Planet Hero'', level_number = 5, total_points = 5000\<rparr>"
    by (simp_all add: level_buckets)
  ultimately show ?thesis by blast
qed

section \<open>The total footprint\<close>










section \<open>The recommendation prompt\<close>

lemma max_by_value_first_maximum:
  "\<exists>pre post. kv # rest = pre @ max_by_value kv rest # post \<and>
     (\<forall>x \<in> set pre. snd x < snd (max_by_value kv rest)) \<and>
     (\<forall>x \<in> set post. snd x \<le> snd (max_by_value kv rest))"
proof (induction rest arbitrary: kv)
  case Nil
  show ?case
    by (intro exI [of _ "[]"]) simp
next
  case (Cons x xs)
  define b where "b = (if snd kv < snd x then x else kv)"
  define m where "m = max_by_value b xs"
  from Cons.IH [of b] obtain pre post where
    split: "b # xs = pre @ m # post" and
    before: "\<forall>y \<in> set pre. snd y < snd m" and
    after: "\<forall>y \<in> set post. snd y \<le> snd m"
    unfolding m_def by blast
  have m: "max_by_value kv (x # xs) = m"
    by (simp add: m_def b_def)
  have b_le: "snd b \<le> snd m"
  proof (cases pre)
    case Nil
    with split show ?thesis by simp
  next
    case (Cons p ps)
    with split have "b \<in> set pre" by simp
    with before show ?thesis by force
  qed
  show ?case
  proof (cases "snd kv < snd x")
    case True
    then have bx: "b = x"
      by (simp add: b_def)
    with split have "kv # x # xs = (kv # pre) @ m # post"
      by simp
    moreover from True b_le bx have "snd kv < snd m"
      by simp
    ultimately show ?thesis
      using before after unfolding m
      by (intro exI [of _ "kv # pre"] exI [of _ post]) simp
  next
    case False
    then have bk: "b = kv"
      by (simp add: b_def)
    show ?thesis
    proof (cases pre)
      case Nil
      with split bk have "m = kv" "post = xs"
        by simp_all
      with False after show ?thesis
        unfolding m
        by (intro exI [of _ "[]"] exI [of _ "x # xs"]) simp
    next
      case (Cons p ps)
      with split bk have p: "p = kv" and xs: "xs = ps @ m # post"
        by simp_all
      from before Cons p have "snd kv < snd m"
        by simp
      with False have "snd x < snd m"
        by simp
      with before after Cons p xs show ?thesis
        unfolding m
        by (intro exI [of _ "kv # x # ps"] exI [of _ post]) simp
    qed
  qed
qed

lemma highest_is_first_maximum:
  assumes "distinct (map fst bd)" and "categories_of bd \<noteq> []"
  shows "\<exists>pre post. categories_of bd = pre @ (highest_category bd, highest_value bd) # post \<and>
     (\<forall>x \<in> set pre. snd x < highest_value bd) \<and>
     (\<forall>x \<in> set post. snd x \<le> highest_value bd)"
proof -
  from assms(2) obtain kv rest where cats: "categories_of bd = kv # rest"
    by (cases "categories_of bd") auto
  let ?m = "max_by_value kv rest"
  from max_by_value_first_maximum [of kv rest] obtain pre post where
    split: "kv # rest = pre @ ?m # post" and
    before: "\<forall>x \<in> set pre. snd x < snd ?m" and
    after: "\<forall>x \<in> set post. snd x \<le> snd ?m"
    by blast
  have hc: "highest_category bd = fst ?m"
    by (simp add: highest_category_def cats)
  have "distinct (map fst (categories_of bd))"
    using assms(1) by (simp add: categories_of_def distinct_map_filter)
  moreover have "?m \<in> set (categories_of bd)"
    using split cats by simp
  ultimately have "map_of (categories_of bd) (fst ?m) = Some (snd ?m)"
    by (metis map_of_eq_Some_iff prod.collapse)
  then have hv: "highest_value bd = snd ?m"
    by (simp add: highest_value_def hc)
  from split before after show ?thesis
    unfolding cats hc hv by auto
qed

lemma highest_of_three:
  "highest_category [(''transport'', t), (''food'', f), (''energy'', e), (''total'', x)] =
     (if f \<le> t \<and> e \<le> t then ''transport'' else if e \<le> f then ''food'' else ''energy'')"
  by (simp add: highest_category_def categories_of_def)

lemma strip_between_newlines:
  assumes "xs \<noteq> []" "\<not> is_space (hd xs)" "\<not> is_space (last xs)"
  shows "str_strip (newline # xs @ [newline]) = xs"
proof -
  have nl: "is_space newline"
    by (simp add: is_space_def newline_def)
  from assms(1,2) have "dropWhile is_space (xs @ [newline]) = xs @ [newline]"
    by (cases xs) simp_all
  with nl have a: "dropWhile is_space (newline # xs @ [newline]) = xs @ [newline]"
    by simp
  from assms(1,3) have "dropWhile is_space (rev xs) = rev xs"
    by (cases xs rule: rev_cases) simp_all
  with nl have "dropWhile is_space (rev (xs @ [newline])) = rev xs"
    by simp
  with a show ?thesis
    by (simp add: str_strip_def)
qed

lemma prompt_lines_shape:
  "\<exists>mid. prompt_lines bd s = [] # (CHR ''A'' # ''ct as a Sustainability Expert and Carbon Footprint Consultant.'') # mid @ [''Recommendations:'']"
  unfolding prompt_lines_def by (rule exI [of _ "butlast (drop 2 (prompt_lines bd s))"]) (simp add: prompt_lines_def)

lemma prompt_is_joined_lines:
  "build_recommendation_prompt bd s = join_lines (tl (prompt_lines bd s))"
proof -
  obtain mid where shape: "prompt_lines bd s = [] # (CHR ''A'' # ''ct as a Sustainability Expert and Carbon Footprint Consultant.'') # mid @ [''Recommendations:'']"
    using prompt_lines_shape by blast
  define f where "f = (\<lambda>l. l @ [newline])"
  define body where "body = concat (map f (tl (prompt_lines bd s)))"
  have body: "body = (CHR ''A'' # ''ct as a Sustainability Expert and Carbon Footprint Consultant.'' @ [newline] @ concat (map f mid) @ ''Recommendations'') @ [CHR '':''] @ [newline]"
    by (simp add: body_def shape f_def)
  define core where "core = (CHR ''A'' # ''ct as a Sustainability Expert and Carbon Footprint Consultant.'' @ [newline] @ concat (map f mid) @ ''Recommendations'') @ [CHR '':'']"
  have bc: "body = core @ [newline]"
    by (simp add: body core_def)
  have "core \<noteq> []" "\<not> is_space (hd core)" "\<not> is_space (last core)"
    by (simp_all add: core_def is_space_def)
  then have "str_strip (newline # core @ [newline]) = core"
    by (rule strip_between_newlines)
  moreover have "concat (map f (prompt_lines bd s)) = newline # body"
    by (simp add: shape body_def f_def)
  ultimately have "build_recommendation_prompt bd s = core"
    by (simp add: build_recommendation_prompt_def bc f_def)
  moreover have "join_lines (tl (prompt_lines bd s)) = core"
    using bc by (simp add: join_lines_def body_def f_def)
  ultimately show ?thesis by simp
qed

text \<open>
  Claim C8. The category named by the prompt is the first one, in the iteration order of
  the breakdown with \<open>total\<close> left out, whose value is the largest: every category before
  it is strictly smaller and every category after it is at most as large. For a breakdown
  with the keys transport, food, energy and total in this order the ties therefore go to
  transport, then food, then energy. The prompt is its lines joined by newlines, and its
  analysis line names the category capitalised with its value to two decimals; for
  transport 45.5, food 12.2, energy 30.0 and total 87.7 it names Transport.
\<close>

theorem highest_category_first_maximum:
  "(distinct (map fst bd) \<and> categories_of bd \<noteq> [] \<longrightarrow>
      (\<exists>pre post. categories_of bd = pre @ (highest_category bd, highest_value bd) # post \<and>
         (\<forall>x \<in> set pre. snd x < highest_value bd) \<and>
         (\<forall>x \<in> set post. snd x \<le> highest_value bd))) \<and>
   highest_category [(''transport'', t), (''food'', f), (''energy'', e), (''total'', x)] =
     (if f \<le> t \<and> e \<le> t then ''transport'' else if e \<le> f then ''food'' else ''energy'') \<and>
   build_recommendation_prompt bd s = join_lines (tl (prompt_lines bd s)) \<and>
   prompt_lines bd s ! 14 =
     ''- The highest contributor to the user's footprint is **'' @
     str_capitalize (highest_category bd) @ ''** ('' @ fmt_2f (highest_value bd) @ '' kg CO2e).'' \<and>
   prompt_lines [(''transport'', 45.5), (''food'', 12.2), (''energy'', 30.0), (''total'', 87.7)] s ! 14 =
     ''- The highest contributor to the user's footprint is **Transport** (45.50 kg CO2e).''"
proof -
  have a: "distinct (map fst bd) \<and> categories_of bd \<noteq> [] \<longrightarrow>
      (\<exists>pre post. categories_of bd = pre @ (highest_category bd, highest_value bd) # post \<and>
         (\<forall>x \<in> set pre. snd x < highest_value bd) \<and>
         (\<forall>x \<in> set post. snd x \<le> highest_value bd))"
    using highest_is_first_maximum by blast
  have b: "prompt_lines bd s ! 14 =
     ''- The highest contributor to the user's footprint is **'' @
     str_capitalize (highest_category bd) @ ''** ('' @ fmt_2f (highest_value bd) @ '' kg CO2e).''"
    for bd
    by (simp add: prompt_lines_def analysis_line_def)
  have c: "prompt_lines [(''transport'', 45.5), (''food'', 12.2), (''energy'', 30.0), (''total'', 87.7)] s ! 14 =
     ''- The highest contributor to the user's footprint is **Transport** (45.50 kg CO2e).''"
    by (simp add: b highest_category_def highest_value_def categories_of_def
      str_capitalize_def upper_char_def lower_char_def fmt_2f_def round_half_even_def
      str_nat.simps digit_char_def Let_def)
  from a b [of bd] c highest_of_three [of t f e x] prompt_is_joined_lines [of bd s]
  show ?thesis
    by blast
qed

theorem highest_category_first_maximum_witness:
  "distinct (map fst [(''transport'', 30), (''food'', 45.5), (''total'', 121), (''energy'', 45.5 :: real)]) \<and>
   categories_of [(''transport'', 30), (''food'', 45.5), (''total'', 121), (''energy'', 45.5)] \<noteq> [] \<and>
   (\<exists>pre post.
      [(''transport'', 30), (''food'', 45.5), (''energy'', 45.5)] = pre @ (''food'', 45.5 :: real) # post \<and>
      (\<forall>x \<in> set pre. snd x < 45.5) \<and> (\<forall>x \<in> set post. snd x \<le> 45.5))"
proof -
  let ?bd = "[(''transport'', 30), (''food'', 45.5), (''total'', 121), (''energy'', 45.5 :: real)]"
  have d: "distinct (map fst ?bd)"
    by simp
  have cats: "categories_of ?bd = [(''transport'', 30), (''food'', 45.5), (''energy'', 45.5)]"
    by (simp add: categories_of_def)
  have hc: "highest_category ?bd = ''food''"
    by (simp add: highest_category_def categories_of_def)
  have hv: "highest_value ?bd = 45.5"
    by (simp add: highest_value_def highest_category_def categories_of_def)
  from d cats have "distinct (map fst ?bd) \<and> categories_of ?bd \<noteq> []"
    by simp
  with highest_category_first_maximum [of ?bd] show ?thesis
    unfolding cats hc hv by blast
qed

section \<open>The integrated demo flow\<close>

text \<open>
  Claim C10. The demo flow computes its badges with a streak of 1 day, Eco Warrior declares
  a minimum streak of 7, and so no response of the demo flow lists the badge
  \<open>eco_warrior\<close>.
\<close>

theorem demo_never_awards_eco_warrior:
  "badges (run_integrated_demo str_float req) =
     get_badges (calculate_transport_emissions (transport_mode req) (distance req) None +
                 calculate_food_emissions (food_type req) (food_quantity req) None +
                 calculate_energy_emissions ''electricity'' (energy_kwh req) None)
       1 (calculate_transport_emissions (transport_mode req) (distance req) None) (energy_kwh req) \<and>
   map min_streak (filter (\<lambda>b. def_id b = ''eco_warrior'') BADGE_DEFINITIONS) = [Some 7] \<and>
   ''eco_warrior'' \<notin> set (map badge_id (badges (run_integrated_demo str_float req)))"
proof -
  have a: "badges (run_integrated_demo str_float req) =
     get_badges (calculate_transport_emissions (transport_mode req) (distance req) None +
                 calculate_food_emissions (food_type req) (food_quantity req) None +
                 calculate_energy_emissions ''electricity'' (energy_kwh req) None)
       1 (calculate_transport_emissions (transport_mode req) (distance req) None) (energy_kwh req)"
    by (simp add: run_integrated_demo_def Let_def)
  have b: "map min_streak (filter (\<lambda>b. def_id b = ''eco_warrior'') BADGE_DEFINITIONS) = [Some 7]"
    by (simp add: BADGE_DEFINITIONS_def)
  have "''eco_warrior'' \<notin> set (map badge_id (get_badges tc 1 tk ek))" for tc tk ek
    by (simp add: get_badges_def get_badges_loop_filter BADGE_DEFINITIONS_def
        badge_qualifies_def earned_entry_def)
  with a b show ?thesis by simp
qed

text \<open>
  Claim C9, as the code has it. The \<open>total\<close> of the breakdown handed to the prompt builder,
  which the prompt prints to 2 decimals, is the sum of the three unrounded category
  emissions, rounded to 2 decimals; the three category entries are each rounded to 2
  decimals, and the total is not computed from them. A request of 0.2 km by car, 0.01 kg of
  vegetables and 0.008 kWh has the total 0.04, while its rounded categories 0.03, 0.00 and
  0.00 add up to 0.03.
\<close>

theorem demo_prompt_total_from_unrounded:
  "(let te = calculate_transport_emissions (transport_mode req) (distance req) None;
        fe = calculate_food_emissions (food_type req) (food_quantity req) None;
        ee = calculate_energy_emissions ''electricity'' (energy_kwh req) None;
        bd = demo_breakdown req;
        r = run_integrated_demo str_float req
    in bd = [(''transport'', py_round te 2), (''food'', py_round fe 2),
             (''energy'', py_round ee 2), (''total'', py_round (te + fe + ee) 2)] \<and>
       get_or_zero bd ''total'' = py_round (te + fe + ee) 2 \<and>
       recommendation_prompt r = build_recommendation_prompt bd (habit_summary str_float req) \<and>
       recommendation_prompt r = join_lines (tl (prompt_lines bd (habit_summary str_float req))) \<and>
       prompt_lines bd (habit_summary str_float req) ! 5 =
         ''- **Total Footprint**: '' @ fmt_2f (py_round (te + fe + ee) 2) \<and>
       total_emission r = py_round (te + fe + ee) 4)"
proof -
  have "prompt_lines bd s ! 5 = ''- **Total Footprint**: '' @ fmt_2f (get_or_zero bd ''total'')" for bd s
    by (simp add: prompt_lines_def)
  then show ?thesis
    by (simp add: Let_def demo_breakdown_def run_integrated_demo_def get_or_zero_def
        prompt_is_joined_lines)
qed

theorem demo_prompt_total_counterexample:
  "get_or_zero (demo_breakdown \<lparr>transport_mode = ''car'', distance = 0.2, food_type = ''vegetables'',
       food_quantity = 0.01, energy_kwh = 0.008\<rparr>) ''total'' = 0.04 \<and>
   py_round (calculate_transport_emissions ''car'' 0.2 None) 2 +
   py_round (calculate_food_emissions ''vegetables'' 0.01 None) 2 +
   py_round (calculate_energy_emissions ''electricity'' 0.008 None) 2 = 0.03 \<and>
   get_or_zero (demo_breakdown \<lparr>transport_mode = ''car'', distance = 0.2, food_type = ''vegetables'',
       food_quantity = 0.01, energy_kwh = 0.008\<rparr>) ''total'' \<noteq>
   py_round (calculate_transport_emissions ''car'' 0.2 None) 2 +
   py_round (calculate_food_emissions ''vegetables'' 0.01 None) 2 +
   py_round (calculate_energy_emissions ''electricity'' 0.008 None) 2"
  by (simp add: demo_breakdown_def get_or_zero_def calculate_transport_emissions_def
      calculate_food_emissions_def calculate_energy_emissions_def default_transport default_food
      default_energy get_factor_def str_lower_def lower_char_def py_round_def
      round_half_even_def Let_def)

end
